theory Spec2Isabelle
  imports Main
begin

section \<open>The script verification/verify_scroll_sync.py\<close>

text \<open>
  The script is one coroutine, \<^verbatim>\<open>main\<close>, run once by \<^verbatim>\<open>asyncio.run\<close>:
  \<^verbatim>\<open>
  async def main():
      async with async_playwright() as p:
          browser = await p.chromium.launch()
          page = await browser.new_page()
          await page.goto("http://localhost:5173")
          # Scroll the editor
          await page.mouse.move(300, 300)
          await page.mouse.wheel(0, 500)
          await asyncio.sleep(1)
          await page.screenshot(path="verification/scroll-sync.png")
          await browser.close()

  if __name__ == "__main__":
      asyncio.run(main())
  \<close>
  Everything it does is a call into the browser-automation library or into asyncio.
  The model records every such call, with its arguments and with what came back, in a
  trace; an environment decides which calls raise. The module is taken as loaded: the
  model starts after the two \<^verbatim>\<open>import\<close> lines.
\<close>

subsection \<open>Calls, errors, the environment and the world\<close>

text \<open>What a call into the library can raise (the library's error, its timeout, an OS error).\<close>

datatype error = Error string | TimeoutError string | OSError string

text \<open>
  One constructor for each call the script makes, carrying the arguments of the call.
  There is one driver handle \<^verbatim>\<open>p\<close>, one \<^verbatim>\<open>browser\<close> and one \<^verbatim>\<open>page\<close> in the
  whole script, each bound once and never rebound, so the receiver of a call is not
  recorded. \<open>ChromiumLaunch h\<close> is \<^verbatim>\<open>p.chromium.launch\<close> with the keyword
  \<^verbatim>\<open>headless\<close> absent (\<open>None\<close>) or given (\<open>Some b\<close>).
\<close>

datatype call =
    AsyncPlaywrightEnter
  | ChromiumLaunch "bool option"
  | NewPage
  | Goto string
  | MouseMove int int
  | MouseWheel int int
  | AsyncioSleep int
  | Screenshot string
  | BrowserClose
  | AsyncPlaywrightExit

type_synonym bytes = "nat list"

text \<open>
  The environment: for every call whether it raises (and what), and the image the
  browser renders when a screenshot is taken. Two things about the library are not
  decided by the script and are fields of the environment as well: what a screenshot
  call that raises leaves at its path (\<open>None\<close>: the file as it was; \<open>Some bs\<close>: a
  file holding \<open>bs\<close>, the empty list for a file opened and never filled), and whether
  the exit handler of the context manager ends the browsers that are still open.
\<close>

record env =
  raises :: "call \<Rightarrow> error option"
  rendering :: bytes
  failed_write :: "bytes option"
  exit_closes_browsers :: bool

text \<open>
  The world the script acts on: the calls made so far, each with its outcome
  (\<open>None\<close>: it returned; \<open>Some e\<close>: it raised \<open>e\<close>), and the files on disk.
\<close>

record world =
  trace :: "(call \<times> error option) list"
  files :: "string \<rightharpoonup> bytes"

type_synonym 'a result = "error + 'a"

subsection \<open>Statements\<close>

text \<open>
  What a call that returns does to the world, beyond being recorded: a screenshot with a
  \<^verbatim>\<open>path\<close> writes the image to that path, replacing what was there. What a call
  that raises does to the world: a screenshot may have touched the file at its path
  before it failed, as the environment says; no other call writes.
\<close>

definition effect :: "env \<Rightarrow> call \<Rightarrow> world \<Rightarrow> world" where
  "effect E c w =
     (case c of
        Screenshot path \<Rightarrow> w\<lparr>files := (files w)(path \<mapsto> rendering E)\<rparr>
      | _ \<Rightarrow> w)"

definition failure :: "env \<Rightarrow> call \<Rightarrow> world \<Rightarrow> world" where
  "failure E c w =
     (case c of
        Screenshot path \<Rightarrow>
          (case failed_write E of
             None \<Rightarrow> w
           | Some bs \<Rightarrow> w\<lparr>files := (files w)(path \<mapsto> bs)\<rparr>)
      | _ \<Rightarrow> w)"

text \<open>\<^verbatim>\<open>await <call>\<close>: the call is made and recorded; it returns or raises.\<close>

definition await :: "env \<Rightarrow> call \<Rightarrow> world \<Rightarrow> unit result \<times> world" where
  "await E c w =
     (case raises E c of
        Some e \<Rightarrow> (Inl e, (failure E c w)\<lparr>trace := trace w @ [(c, Some e)]\<rparr>)
      | None \<Rightarrow> (Inr (), (effect E c w)\<lparr>trace := trace w @ [(c, None)]\<rparr>))"

text \<open>
  A block of \<^verbatim>\<open>await\<close> statements, run in order. The script has no
  \<^verbatim>\<open>try\<close>: the first statement that raises ends the block with that error.
\<close>

fun block :: "env \<Rightarrow> call list \<Rightarrow> world \<Rightarrow> unit result \<times> world" where
  "block E [] w = (Inr (), w)"
| "block E (c # cs) w =
     (case await E c w of
        (Inl e, w') \<Rightarrow> (Inl e, w')
      | (Inr u, w') \<Rightarrow> block E cs w')"

text \<open>
  \<^verbatim>\<open>async with async_playwright() as p: body\<close>. The manager is entered; if entering
  raises, neither the body nor the exit handler runs. Otherwise the body runs, and the
  exit handler runs after it however the body ended. The library's exit handler returns
  no value, so it never swallows the error of the body: that error is raised again once
  the handler has returned. An error raised by the handler itself takes its place.
\<close>

definition async_with ::
  "env \<Rightarrow> (world \<Rightarrow> unit result \<times> world) \<Rightarrow> world \<Rightarrow> unit result \<times> world" where
  "async_with E body w =
     (case await E AsyncPlaywrightEnter w of
        (Inl e, w1) \<Rightarrow> (Inl e, w1)
      | (Inr u, w1) \<Rightarrow>
          (case body w1 of
             (r, w2) \<Rightarrow>
               (case await E AsyncPlaywrightExit w2 of
                  (Inl e', w3) \<Rightarrow> (Inl e', w3)
                | (Inr u', w3) \<Rightarrow> (r, w3))))"

subsection \<open>The coroutine and the process\<close>

definition main_body :: "call list" where
  "main_body =
     [ChromiumLaunch None,
      NewPage,
      Goto ''http://localhost:5173'',
      MouseMove 300 300,
      MouseWheel 0 500,
      AsyncioSleep 1,
      Screenshot ''verification/scroll-sync.png'',
      BrowserClose]"

definition main :: "env \<Rightarrow> world \<Rightarrow> unit result \<times> world" where
  "main E = async_with E (block E main_body)"

text \<open>\<^verbatim>\<open>asyncio.run(coro)\<close> runs the coroutine to its end and hands on its result or error.\<close>

definition asyncio_run :: "(world \<Rightarrow> unit result \<times> world) \<Rightarrow> world \<Rightarrow> unit result \<times> world" where
  "asyncio_run coro w = coro w"

text \<open>The last two lines: the module body, under the name the interpreter gave the module.\<close>

definition module_body :: "env \<Rightarrow> string \<Rightarrow> world \<Rightarrow> unit result \<times> world" where
  "module_body E name w =
     (if name = ''__main__'' then asyncio_run (main E) w else (Inr (), w))"

text \<open>
  How the script is started: its command line, the process environment, and the files
  on disk (configuration files among them).
\<close>

record invocation =
  argv :: "string list"
  environ :: "(string \<times> string) list"
  disk :: "string \<rightharpoonup> bytes"

text \<open>
  What a run leaves behind: the exit status, the error that reached the top level (the
  interpreter prints it to standard error), and the world.
\<close>

record process =
  exit_status :: nat
  uncaught :: "error option"
  final :: world

text \<open>
  \<^verbatim>\<open>python verification/verify_scroll_sync.py ...\<close>: the interpreter runs the module as
  \<^verbatim>\<open>__main__\<close>; an error nobody caught ends the process with status 1, a normal end
  with status 0. Nothing in the script reads \<open>argv\<close> or \<open>environ\<close>.
\<close>

definition run_script :: "env \<Rightarrow> invocation \<Rightarrow> process" where
  "run_script E I =
     (case module_body E ''__main__'' \<lparr>trace = [], files = disk I\<rparr> of
        (Inl e, w) \<Rightarrow> \<lparr>exit_status = 1, uncaught = Some e, final = w\<rparr>
      | (Inr u, w) \<Rightarrow> \<lparr>exit_status = 0, uncaught = None, final = w\<rparr>)"

subsection \<open>Observing a run\<close>

type_synonym events = "(call \<times> error option) list"

definition run_trace :: "env \<Rightarrow> invocation \<Rightarrow> events" where
  "run_trace E I = trace (final (run_script E I))"

definition run_calls :: "env \<Rightarrow> invocation \<Rightarrow> call list" where
  "run_calls E I = map fst (run_trace E I)"

definition run_files :: "env \<Rightarrow> invocation \<Rightarrow> (string \<rightharpoonup> bytes)" where
  "run_files E I = files (final (run_script E I))"

text \<open>The call was made (whatever came back); the call was made and returned.\<close>

definition called :: "call \<Rightarrow> events \<Rightarrow> bool" where
  "called c tr = (c \<in> set (map fst tr))"

definition returned :: "call \<Rightarrow> events \<Rightarrow> bool" where
  "returned c tr = ((c, None) \<in> set tr)"

text \<open>The errors raised, in the order they were raised.\<close>

definition raised :: "events \<Rightarrow> error list" where
  "raised tr = List.map_filter snd tr"

text \<open>What happened before the first call of \<open>c\<close>; what happened after \<open>a\<close> and before \<open>b\<close>.\<close>

definition up_to :: "call \<Rightarrow> events \<Rightarrow> events" where
  "up_to c tr = takeWhile (\<lambda>x. fst x \<noteq> c) tr"

definition between :: "call \<Rightarrow> call \<Rightarrow> events \<Rightarrow> events" where
  "between a b tr = tl (dropWhile (\<lambda>x. fst x \<noteq> a) (up_to b tr))"

fun is_goto :: "call \<Rightarrow> bool" where
  "is_goto (Goto url) = True"
| "is_goto c = False"

fun is_input :: "call \<Rightarrow> bool" where
  "is_input (MouseMove x y) = True"
| "is_input (MouseWheel dx dy) = True"
| "is_input c = False"

text \<open>
  Modelled from the spec: what the page receives from the mouse calls. The library is
  not part of the repository; by the spec (4.1, steps 4 and 5) a move puts the pointer
  at the given viewport coordinate and a wheel call emits a wheel input at the place
  where the pointer then is, with the given horizontal and vertical delta. A call that
  raised delivered nothing. The pointer of a new page is at the origin.
\<close>

datatype input_event =
    PointerMove (to_x: int) (to_y: int)
  | Wheel (position: "int \<times> int") (delta_x: int) (delta_y: int)

fun dispatch :: "int \<times> int \<Rightarrow> events \<Rightarrow> input_event list" where
  "dispatch pos [] = []"
| "dispatch pos ((MouseMove x y, None) # tr) = PointerMove x y # dispatch (x, y) tr"
| "dispatch pos ((MouseWheel dx dy, None) # tr) = Wheel pos dx dy # dispatch pos tr"
| "dispatch pos (c # tr) = dispatch pos tr"

definition gesture :: "events \<Rightarrow> input_event list" where
  "gesture tr = dispatch (0, 0) tr"

text \<open>
  Modelled from the spec: the mode of a browser launched with or without the
  \<^verbatim>\<open>headless\<close> keyword. The library is not part of the repository; by the spec
  (4.1, step 1) the launch of the script, which passes no keyword, is headless.
\<close>

definition launch_headless :: "bool option \<Rightarrow> bool" where
  "launch_headless h = (case h of None \<Rightarrow> True | Some b \<Rightarrow> b)"

text \<open>
  Modelled from the spec: the browser processes alive along a trace, counted from
  \<open>n\<close>. The library is not part of the repository; by the spec (3 and the glossary,
  Browser Session) a launch that returns has started a browser process and a close
  that returns has ended one. What the exit handler of the context manager does to a
  browser still open the spec does not settle: the environment says whether a handler
  that returns has ended them all. A call that raised is credited with nothing.
\<close>

fun live_browsers :: "env \<Rightarrow> nat \<Rightarrow> events \<Rightarrow> nat" where
  "live_browsers E n [] = n"
| "live_browsers E n ((ChromiumLaunch h, None) # tr) = live_browsers E (Suc n) tr"
| "live_browsers E n ((BrowserClose, None) # tr) = live_browsers E (n - 1) tr"
| "live_browsers E n ((AsyncPlaywrightExit, None) # tr) =
     live_browsers E (if exit_closes_browsers E then 0 else n) tr"
| "live_browsers E n (c # tr) = live_browsers E n tr"

text \<open>A browser process is orphaned by a run: it is still alive when the run has ended.\<close>

definition orphaned :: "env \<Rightarrow> events \<Rightarrow> bool" where
  "orphaned E tr = (0 < live_browsers E 0 tr)"

text \<open>
  Modelled from the spec: whether the automation driver, the resource of the context
  manager, is up after a trace that began with it up (\<open>b\<close>) or down. The library is
  not part of the repository; by the spec (glossary, scoped acquisition) a scoped
  resource is acquired on entering its scope and released on leaving it. So the driver
  is up once the entry call has returned and down once the exit handler has returned;
  a call that raised is credited with nothing.
\<close>

fun driver_running :: "bool \<Rightarrow> events \<Rightarrow> bool" where
  "driver_running b [] = b"
| "driver_running b ((AsyncPlaywrightEnter, None) # tr) = driver_running True tr"
| "driver_running b ((AsyncPlaywrightExit, None) # tr) = driver_running False tr"
| "driver_running b (c # tr) = driver_running b tr"

subsection \<open>The trace of a block in closed form\<close>

text \<open>
  The calls a block makes under an environment: each statement up to and including the
  first one that raises. The files as the calls of a trace leave them.
\<close>

fun attempt :: "env \<Rightarrow> call list \<Rightarrow> events" where
  "attempt E [] = []"
| "attempt E (c # cs) =
     (case raises E c of
        Some e \<Rightarrow> [(c, Some e)]
      | None \<Rightarrow> (c, None) # attempt E cs)"

fun written :: "env \<Rightarrow> events \<Rightarrow> (string \<rightharpoonup> bytes) \<Rightarrow> (string \<rightharpoonup> bytes)" where
  "written E [] fs = fs"
| "written E ((Screenshot path, None) # tr) fs = written E tr (fs(path \<mapsto> rendering E))"
| "written E ((Screenshot path, Some e) # tr) fs =
     written E tr (case failed_write E of None \<Rightarrow> fs | Some bs \<Rightarrow> fs(path \<mapsto> bs))"
| "written E (c # tr) fs = written E tr fs"

subsection \<open>Sample environments and invocations\<close>

definition png :: bytes where
  "png = [137, 80, 78, 71, 13, 10, 26, 10]"

definition all_fine :: env where
  "all_fine =
     \<lparr>raises = (\<lambda>c. None), rendering = png,
      failed_write = None, exit_closes_browsers = True\<rparr>"

definition all_fine_other_image :: env where
  "all_fine_other_image =
     \<lparr>raises = (\<lambda>c. None), rendering = png @ [0],
      failed_write = Some [], exit_closes_browsers = False\<rparr>"

definition server_down :: env where
  "server_down =
     \<lparr>raises = (\<lambda>c. if c = Goto ''http://localhost:5173''
                     then Some (Error ''net::ERR_CONNECTION_REFUSED'') else None),
      rendering = png, failed_write = None, exit_closes_browsers = True\<rparr>"

definition wheel_fails :: env where
  "wheel_fails =
     \<lparr>raises = (\<lambda>c. if c = MouseWheel 0 500 then Some (Error ''Target closed'') else None),
      rendering = png, failed_write = Some [], exit_closes_browsers = False\<rparr>"

definition launch_fails :: env where
  "launch_fails =
     \<lparr>raises = (\<lambda>c. if c = ChromiumLaunch None
                     then Some (Error ''Executable does not exist'') else None),
      rendering = png, failed_write = None, exit_closes_browsers = False\<rparr>"

definition plain :: invocation where
  "plain = \<lparr>argv = [''verification/verify_scroll_sync.py''], environ = [], disk = Map.empty\<rparr>"

definition busy :: invocation where
  "busy =
     \<lparr>argv = [''verification/verify_scroll_sync.py'', ''--url'', ''http://example.org''],
      environ = [(''HEADLESS'', ''0''), (''PORT'', ''8080'')],
      disk = [''verification/scroll-sync.png'' \<mapsto> [1, 2, 3], ''config.json'' \<mapsto> [123, 125]]\<rparr>"

section \<open>Properties\<close>

subsection \<open>A block and a run in closed form\<close>

lemma block_trace: "trace (snd (block E cs w)) = trace w @ attempt E cs"
  by (induction cs arbitrary: w)
     (auto simp: await_def effect_def failure_def split: option.splits call.splits)

lemma block_files: "files (snd (block E cs w)) = written E (attempt E cs) (files w)"
  by (induction cs arbitrary: w)
     (auto simp: await_def effect_def failure_def split: option.splits call.splits)

lemma block_result:
  "fst (block E cs w) = (case raised (attempt E cs) of [] \<Rightarrow> Inr () | e # es \<Rightarrow> Inl e)"
  by (induction cs arbitrary: w)
     (auto simp: await_def raised_def split: option.splits)

lemma block_eq:
  "block E cs w =
     ((case raised (attempt E cs) of [] \<Rightarrow> Inr () | e # es \<Rightarrow> Inl e),
      \<lparr>trace = trace w @ attempt E cs, files = written E (attempt E cs) (files w)\<rparr>)"
  using block_trace [of E cs w] block_files [of E cs w] block_result [of E cs w]
  by (cases "block E cs w") auto

lemma attempt_calls: "map fst (attempt E cs) = take (length (attempt E cs)) cs"
  by (induction cs) (auto split: option.splits)

lemma attempt_cong: "raises E = raises E' \<Longrightarrow> attempt E cs = attempt E' cs"
  by (induction cs) (auto split: option.splits)

lemma run_script_eq:
  "run_script E I =
     (case raises E AsyncPlaywrightEnter of
        Some e \<Rightarrow>
          \<lparr>exit_status = 1, uncaught = Some e,
           final = \<lparr>trace = [(AsyncPlaywrightEnter, Some e)], files = disk I\<rparr>\<rparr>
      | None \<Rightarrow>
          (let tr = (AsyncPlaywrightEnter, None) # attempt E main_body
                      @ [(AsyncPlaywrightExit, raises E AsyncPlaywrightExit)];
               fs = written E (attempt E main_body) (disk I)
           in case raises E AsyncPlaywrightExit of
                Some e' \<Rightarrow>
                  \<lparr>exit_status = 1, uncaught = Some e', final = \<lparr>trace = tr, files = fs\<rparr>\<rparr>
              | None \<Rightarrow>
                  (case raised (attempt E main_body) of
                     [] \<Rightarrow>
                       \<lparr>exit_status = 0, uncaught = None, final = \<lparr>trace = tr, files = fs\<rparr>\<rparr>
                   | e # es \<Rightarrow>
                       \<lparr>exit_status = 1, uncaught = Some e,
                        final = \<lparr>trace = tr, files = fs\<rparr>\<rparr>)))"
  by (simp add: run_script_def module_body_def asyncio_run_def main_def async_with_def
        block_eq await_def effect_def failure_def Let_def split: option.splits list.splits)

lemma run_trace_eq:
  "run_trace E I =
     (case raises E AsyncPlaywrightEnter of
        Some e \<Rightarrow> [(AsyncPlaywrightEnter, Some e)]
      | None \<Rightarrow> (AsyncPlaywrightEnter, None) # attempt E main_body
                  @ [(AsyncPlaywrightExit, raises E AsyncPlaywrightExit)])"
  by (simp add: run_trace_def run_script_eq Let_def split: option.splits list.splits)

lemma run_files_eq:
  "run_files E I =
     (case raises E AsyncPlaywrightEnter of
        Some e \<Rightarrow> disk I
      | None \<Rightarrow> written E (attempt E main_body) (disk I))"
  by (simp add: run_files_def run_script_eq Let_def split: option.splits list.splits)

lemma run_uncaught_eq:
  "uncaught (run_script E I) =
     (case raised (run_trace E I) of [] \<Rightarrow> None | e # es \<Rightarrow> Some (last (e # es)))"
  by (simp add: run_trace_eq run_script_eq Let_def raised_def main_body_def
        split: option.splits list.splits)

lemma run_status_eq:
  "exit_status (run_script E I) = (if uncaught (run_script E I) = None then 0 else 1)"
  by (simp add: run_script_eq Let_def split: option.splits list.splits)

lemmas run_simps =
  run_trace_eq run_files_eq run_script_eq run_calls_def main_body_def
  called_def returned_def raised_def up_to_def between_def gesture_def Let_def

lemmas sample_defs =
  all_fine_def all_fine_other_image_def server_down_def wheel_fails_def launch_fails_def
  plain_def busy_def png_def

text \<open>A run that gets to the screenshot call has made the seven calls before it, and all returned.\<close>

lemma before_screenshot:
  assumes "called (Screenshot ''verification/scroll-sync.png'') (run_trace E I)"
  shows "up_to (Screenshot ''verification/scroll-sync.png'') (run_trace E I)
           = [(AsyncPlaywrightEnter, None), (ChromiumLaunch None, None), (NewPage, None),
              (Goto ''http://localhost:5173'', None), (MouseMove 300 300, None),
              (MouseWheel 0 500, None), (AsyncioSleep 1, None)]"
  using assms
  by (simp add: run_trace_eq main_body_def called_def up_to_def split: option.splits)

subsection \<open>Browsers and the driver along a run\<close>

lemma live_browsers_exit_last:
  "live_browsers E n (tr @ [(AsyncPlaywrightExit, r)])
     = (if r = None \<and> exit_closes_browsers E then 0 else live_browsers E n tr)"
  by (induction E n tr rule: live_browsers.induct) (cases r; simp)+

lemma live_browsers_body:
  "live_browsers E 0 (attempt E main_body)
     = (if (ChromiumLaunch None, None) \<in> set (attempt E main_body)
           \<and> (BrowserClose, None) \<notin> set (attempt E main_body)
        then 1 else 0)"
  by (simp add: main_body_def split: option.splits)

lemma driver_running_exit_last:
  "driver_running b (tr @ [(AsyncPlaywrightExit, None)]) = False"
  by (induction b tr rule: driver_running.induct) simp_all

lemma driver_running_body: "driver_running b (attempt E main_body) = b"
  by (simp add: main_body_def split: option.splits)

lemma entered_trace:
  assumes "returned AsyncPlaywrightEnter (run_trace E I)"
  shows "run_trace E I
           = (AsyncPlaywrightEnter, None) # attempt E main_body
             @ [(AsyncPlaywrightExit, raises E AsyncPlaywrightExit)]"
  using assms by (auto simp add: run_trace_eq returned_def split: option.splits)

subsection \<open>The scroll gesture\<close>

text \<open>
  C1. In every run that reaches the screenshot call, no call before it raised, and the
  input the page received before the capture is exactly one pointer move to the
  viewport coordinate (300, 300) followed by exactly one wheel event at that pointer
  position with horizontal delta 0 and vertical delta 500, in this order. The input
  calls the script made before the capture are \<^verbatim>\<open>mouse.move(300, 300)\<close> and
  \<^verbatim>\<open>mouse.wheel(0, 500)\<close>, once each, in this order.
\<close>

theorem scroll_gesture_before_capture:
  assumes "called (Screenshot ''verification/scroll-sync.png'') (run_trace E I)"
  shows "gesture (up_to (Screenshot ''verification/scroll-sync.png'') (run_trace E I))
           = [PointerMove 300 300, Wheel (300, 300) 0 500]
         \<and> filter is_input
               (map fst (up_to (Screenshot ''verification/scroll-sync.png'') (run_trace E I)))
             = [MouseMove 300 300, MouseWheel 0 500]
         \<and> raised (up_to (Screenshot ''verification/scroll-sync.png'') (run_trace E I)) = []"
  by (simp add: before_screenshot [OF assms] gesture_def raised_def)

theorem scroll_gesture_before_capture_witness:
  "called (Screenshot ''verification/scroll-sync.png'') (run_trace all_fine plain)
   \<and> gesture (up_to (Screenshot ''verification/scroll-sync.png'') (run_trace all_fine plain))
       = [PointerMove 300 300, Wheel (300, 300) 0 500]"
proof -
  have reached: "called (Screenshot ''verification/scroll-sync.png'') (run_trace all_fine plain)"
    by (simp add: run_simps sample_defs)
  from reached scroll_gesture_before_capture [OF reached] show ?thesis by simp
qed

subsection \<open>Errors\<close>

text \<open>
  C2. If any call of the run raises, the process ends with the non-zero exit status 1
  and an error reaches the top level uncaught: the last one raised. The script has no
  handler of its own, so when the exit handler of the context manager returns normally
  the error at the top level is the very error the failing step raised.
\<close>

theorem errors_reach_top_level:
  assumes "(c, Some e) \<in> set (run_trace E I)"
  shows "exit_status (run_script E I) = 1
         \<and> uncaught (run_script E I) = Some (last (raised (run_trace E I)))
         \<and> (raises E AsyncPlaywrightExit = None \<longrightarrow> uncaught (run_script E I) = Some e)"
  using assms by (auto simp add: run_simps split: option.splits dest: sym)

theorem errors_reach_top_level_witness:
  "(Goto ''http://localhost:5173'', Some (Error ''net::ERR_CONNECTION_REFUSED''))
     \<in> set (run_trace server_down plain)
   \<and> raises server_down AsyncPlaywrightExit = None
   \<and> exit_status (run_script server_down plain) = 1
   \<and> uncaught (run_script server_down plain) = Some (Error ''net::ERR_CONNECTION_REFUSED'')"
proof -
  have failed: "(Goto ''http://localhost:5173'', Some (Error ''net::ERR_CONNECTION_REFUSED''))
                  \<in> set (run_trace server_down plain)"
    by (simp add: run_simps sample_defs)
  have quiet: "raises server_down AsyncPlaywrightExit = None"
    by (simp add: sample_defs)
  from failed quiet errors_reach_top_level [OF failed] show ?thesis by blast
qed

text \<open>
  C3. If the navigation to http://localhost:5173 raises, no screenshot call is made at
  all, the files on disk are what they were before the run (nothing is created, and a
  file already at verification/scroll-sync.png keeps its content), and the exit status
  is 1.
\<close>

theorem navigation_failure_skips_screenshot:
  assumes "(Goto ''http://localhost:5173'', Some e) \<in> set (run_trace E I)"
  shows "(\<forall>path. \<not> called (Screenshot path) (run_trace E I))
         \<and> run_files E I = disk I
         \<and> exit_status (run_script E I) = 1"
  using assms by (auto simp add: run_simps split: option.splits)

theorem navigation_failure_skips_screenshot_witness:
  "(Goto ''http://localhost:5173'', Some (Error ''net::ERR_CONNECTION_REFUSED''))
     \<in> set (run_trace server_down busy)
   \<and> \<not> called (Screenshot ''verification/scroll-sync.png'') (run_trace server_down busy)
   \<and> run_files server_down busy ''verification/scroll-sync.png'' = Some [1, 2, 3]
   \<and> exit_status (run_script server_down busy) = 1"
proof -
  have failed: "(Goto ''http://localhost:5173'', Some (Error ''net::ERR_CONNECTION_REFUSED''))
                  \<in> set (run_trace server_down busy)"
    by (simp add: run_simps sample_defs)
  have before: "disk busy ''verification/scroll-sync.png'' = Some [1, 2, 3]"
    by (simp add: sample_defs)
  from failed before navigation_failure_skips_screenshot [OF failed] show ?thesis by simp
qed

text \<open>
  C4, as stated, fails: a run in which the navigation raises skips the close call, yet
  under a library whose exit handler ends the browsers still open no browser process
  is left behind.
\<close>

theorem orphaned_browser_counterexample:
  "raised (up_to (Screenshot ''verification/scroll-sync.png'') (run_trace server_down plain)) \<noteq> []
   \<and> returned (ChromiumLaunch None) (run_trace server_down plain)
   \<and> \<not> called BrowserClose (run_trace server_down plain)
   \<and> \<not> orphaned server_down (run_trace server_down plain)"
  by (simp add: run_simps orphaned_def sample_defs)

text \<open>
  C4, amended. The script calls \<^verbatim>\<open>browser.close()\<close> exactly in the runs in which
  the screenshot call returned, and then after it: every earlier call, the screenshot
  last, has returned by the time of the close call. In every run in which a call
  before the screenshot raised, the close call is skipped, so a browser that had been
  launched is still open when the exit handler of the context manager is called.
  Whether it is orphaned is then up to that handler: it is when the handler leaves
  open browsers alone, it is not when the handler ends them and returns. When the
  launch itself did not return there is no browser to orphan.
\<close>

theorem close_only_after_screenshot:
  "called BrowserClose (run_trace E I)
     = returned (Screenshot ''verification/scroll-sync.png'') (run_trace E I)
   \<and> (called BrowserClose (run_trace E I) \<longrightarrow>
        up_to BrowserClose (run_trace E I)
          = [(AsyncPlaywrightEnter, None), (ChromiumLaunch None, None), (NewPage, None),
             (Goto ''http://localhost:5173'', None), (MouseMove 300 300, None),
             (MouseWheel 0 500, None), (AsyncioSleep 1, None),
             (Screenshot ''verification/scroll-sync.png'', None)])
   \<and> (raised (up_to (Screenshot ''verification/scroll-sync.png'') (run_trace E I)) \<noteq> []
        \<longrightarrow> \<not> called BrowserClose (run_trace E I)
            \<and> (returned (ChromiumLaunch None) (run_trace E I) \<longrightarrow>
                 live_browsers E 0 (butlast (run_trace E I)) = 1
                 \<and> (\<not> exit_closes_browsers E \<longrightarrow> orphaned E (run_trace E I))
                 \<and> (exit_closes_browsers E \<and> raises E AsyncPlaywrightExit = None
                      \<longrightarrow> \<not> orphaned E (run_trace E I)))
            \<and> (\<not> returned (ChromiumLaunch None) (run_trace E I)
                 \<longrightarrow> \<not> orphaned E (run_trace E I)))"
proof -
  let ?tr = "run_trace E I"
  let ?shot = "Screenshot ''verification/scroll-sync.png''"
  let ?body = "attempt E main_body"
  have close_iff: "called BrowserClose ?tr = returned ?shot ?tr"
    by (auto simp add: run_simps split: option.splits)
  have order: "called BrowserClose ?tr \<longrightarrow>
        up_to BrowserClose ?tr
          = [(AsyncPlaywrightEnter, None), (ChromiumLaunch None, None), (NewPage, None),
             (Goto ''http://localhost:5173'', None), (MouseMove 300 300, None),
             (MouseWheel 0 500, None), (AsyncioSleep 1, None), (?shot, None)]"
    by (auto simp add: run_simps split: option.splits)
  have skipped: "raised (up_to ?shot ?tr) \<noteq> [] \<longrightarrow> \<not> called BrowserClose ?tr"
    by (auto simp add: run_simps split: option.splits)
  have browsers:
    "(returned (ChromiumLaunch None) ?tr \<longrightarrow>
        live_browsers E 0 (butlast ?tr) = 1
        \<and> (\<not> exit_closes_browsers E \<longrightarrow> orphaned E ?tr)
        \<and> (exit_closes_browsers E \<and> raises E AsyncPlaywrightExit = None
             \<longrightarrow> \<not> orphaned E ?tr))
     \<and> (\<not> returned (ChromiumLaunch None) ?tr \<longrightarrow> \<not> orphaned E ?tr)"
    if early: "raised (up_to ?shot ?tr) \<noteq> []"
  proof (cases "returned AsyncPlaywrightEnter ?tr")
    case False
    then have "?tr = [(AsyncPlaywrightEnter, raises E AsyncPlaywrightEnter)]"
      by (auto simp add: run_trace_eq returned_def split: option.splits)
    moreover from False have "raises E AsyncPlaywrightEnter \<noteq> None"
      by (auto simp add: run_trace_eq returned_def split: option.splits)
    ultimately show ?thesis
      by (auto simp add: returned_def orphaned_def)
  next
    case True
    note tr = entered_trace [OF True]
    have no_close: "(BrowserClose, None) \<notin> set ?body"
    proof
      assume "(BrowserClose, None) \<in> set ?body"
      then have "called BrowserClose ?tr"
        by (force simp add: tr called_def)
      with skipped early show False by simp
    qed
    have launched: "returned (ChromiumLaunch None) ?tr = ((ChromiumLaunch None, None) \<in> set ?body)"
      by (simp add: tr returned_def)
    have before_exit: "live_browsers E 0 (butlast ?tr) = live_browsers E 0 ?body"
      by (simp add: tr butlast_append)
    have at_end: "live_browsers E 0 ?tr
                    = (if raises E AsyncPlaywrightExit = None \<and> exit_closes_browsers E
                       then 0 else live_browsers E 0 ?body)"
      by (simp add: tr live_browsers_exit_last)
    show ?thesis
      by (simp add: launched before_exit at_end orphaned_def live_browsers_body no_close)
  qed
  from close_iff order skipped browsers show ?thesis by blast
qed

theorem close_only_after_screenshot_witness:
  "raised (up_to (Screenshot ''verification/scroll-sync.png'') (run_trace wheel_fails plain)) \<noteq> []
   \<and> returned (ChromiumLaunch None) (run_trace wheel_fails plain)
   \<and> \<not> exit_closes_browsers wheel_fails
   \<and> \<not> called BrowserClose (run_trace wheel_fails plain)
   \<and> live_browsers wheel_fails 0 (butlast (run_trace wheel_fails plain)) = 1
   \<and> orphaned wheel_fails (run_trace wheel_fails plain)
   \<and> raised (up_to (Screenshot ''verification/scroll-sync.png'') (run_trace server_down busy)) \<noteq> []
   \<and> returned (ChromiumLaunch None) (run_trace server_down busy)
   \<and> exit_closes_browsers server_down \<and> raises server_down AsyncPlaywrightExit = None
   \<and> live_browsers server_down 0 (butlast (run_trace server_down busy)) = 1
   \<and> \<not> orphaned server_down (run_trace server_down busy)
   \<and> raised (up_to (Screenshot ''verification/scroll-sync.png'') (run_trace launch_fails plain)) \<noteq> []
   \<and> \<not> returned (ChromiumLaunch None) (run_trace launch_fails plain)
   \<and> \<not> orphaned launch_fails (run_trace launch_fails plain)
   \<and> called BrowserClose (run_trace all_fine plain)
   \<and> returned (Screenshot ''verification/scroll-sync.png'') (run_trace all_fine plain)
   \<and> up_to BrowserClose (run_trace all_fine plain)
        = [(AsyncPlaywrightEnter, None), (ChromiumLaunch None, None), (NewPage, None),
           (Goto ''http://localhost:5173'', None), (MouseMove 300 300, None),
           (MouseWheel 0 500, None), (AsyncioSleep 1, None),
           (Screenshot ''verification/scroll-sync.png'', None)]"
proof -
  have early: "raised (up_to (Screenshot ''verification/scroll-sync.png'')
                 (run_trace wheel_fails plain)) \<noteq> []"
    and launched: "returned (ChromiumLaunch None) (run_trace wheel_fails plain)"
    and left: "\<not> exit_closes_browsers wheel_fails"
    by (simp_all add: run_simps sample_defs)
  have early': "raised (up_to (Screenshot ''verification/scroll-sync.png'')
                  (run_trace server_down busy)) \<noteq> []"
    and launched': "returned (ChromiumLaunch None) (run_trace server_down busy)"
    and ended: "exit_closes_browsers server_down"
    and quiet: "raises server_down AsyncPlaywrightExit = None"
    by (simp_all add: run_simps sample_defs)
  have early'': "raised (up_to (Screenshot ''verification/scroll-sync.png'')
                   (run_trace launch_fails plain)) \<noteq> []"
    and none: "\<not> returned (ChromiumLaunch None) (run_trace launch_fails plain)"
    by (simp_all add: run_simps sample_defs)
  have closed: "called BrowserClose (run_trace all_fine plain)"
    by (simp add: run_simps sample_defs)
  from early launched left early' launched' ended quiet early'' none closed
    close_only_after_screenshot [of wheel_fails plain]
    close_only_after_screenshot [of server_down busy]
    close_only_after_screenshot [of launch_fails plain]
    close_only_after_screenshot [of all_fine plain]
  show ?thesis by blast
qed

subsection \<open>Navigation\<close>

text \<open>
  C5. The page is navigated exactly once, to http://localhost:5173: every run in which
  the page was created makes exactly one navigation call, with this URL (a run that
  ended before it had a page makes none). The navigation comes immediately after the
  page creation and before any input: what precedes it is the entering of the context
  manager, the launch and the page creation, nothing else. If it raises, the run is
  aborted without a retry: the only call after it is the exit handler of the context
  manager.
\<close>

theorem single_navigation:
  "filter is_goto (run_calls E I)
     = (if returned NewPage (run_trace E I) then [Goto ''http://localhost:5173''] else [])
   \<and> (called (Goto ''http://localhost:5173'') (run_trace E I) \<longrightarrow>
        up_to (Goto ''http://localhost:5173'') (run_trace E I)
          = [(AsyncPlaywrightEnter, None), (ChromiumLaunch None, None), (NewPage, None)])
   \<and> (\<forall>e. (Goto ''http://localhost:5173'', Some e) \<in> set (run_trace E I) \<longrightarrow>
        run_trace E I
          = [(AsyncPlaywrightEnter, None), (ChromiumLaunch None, None), (NewPage, None),
             (Goto ''http://localhost:5173'', Some e),
             (AsyncPlaywrightExit, raises E AsyncPlaywrightExit)])"
  by (auto simp add: run_simps split: option.splits)

theorem single_navigation_witness:
  "returned NewPage (run_trace server_down plain)
   \<and> called (Goto ''http://localhost:5173'') (run_trace server_down plain)
   \<and> (Goto ''http://localhost:5173'', Some (Error ''net::ERR_CONNECTION_REFUSED''))
        \<in> set (run_trace server_down plain)
   \<and> filter is_goto (run_calls server_down plain) = [Goto ''http://localhost:5173'']
   \<and> up_to (Goto ''http://localhost:5173'') (run_trace server_down plain)
        = [(AsyncPlaywrightEnter, None), (ChromiumLaunch None, None), (NewPage, None)]
   \<and> run_trace server_down plain
        = [(AsyncPlaywrightEnter, None), (ChromiumLaunch None, None), (NewPage, None),
           (Goto ''http://localhost:5173'', Some (Error ''net::ERR_CONNECTION_REFUSED'')),
           (AsyncPlaywrightExit, raises server_down AsyncPlaywrightExit)]"
proof -
  have page: "returned NewPage (run_trace server_down plain)"
    by (simp add: run_simps sample_defs)
  have nav: "called (Goto ''http://localhost:5173'') (run_trace server_down plain)"
    by (simp add: run_simps sample_defs)
  have failed: "(Goto ''http://localhost:5173'', Some (Error ''net::ERR_CONNECTION_REFUSED''))
                  \<in> set (run_trace server_down plain)"
    by (simp add: run_simps sample_defs)
  from page nav failed single_navigation [of server_down plain]
  show ?thesis by simp
qed

subsection \<open>The screenshot\<close>

text \<open>
  C6. After every successful run (exit status 0) the disk is the disk from before the
  run with the rendered image stored at verification/scroll-sync.png: the screenshot
  is written to that path, whatever was there before is replaced, and no other path
  has changed.
\<close>

theorem screenshot_is_the_only_write:
  assumes "exit_status (run_script E I) = 0"
  shows "run_files E I = (disk I)(''verification/scroll-sync.png'' \<mapsto> rendering E)"
  using assms by (auto simp add: run_simps split: option.splits)

theorem screenshot_is_the_only_write_witness:
  "exit_status (run_script all_fine busy) = 0
   \<and> disk busy ''verification/scroll-sync.png'' = Some [1, 2, 3]
   \<and> run_files all_fine busy = (disk busy)(''verification/scroll-sync.png'' \<mapsto> png)
   \<and> run_files all_fine busy ''config.json'' = Some [123, 125]"
proof -
  have ok: "exit_status (run_script all_fine busy) = 0"
    by (simp add: run_simps sample_defs)
  have old: "disk busy ''verification/scroll-sync.png'' = Some [1, 2, 3]"
    and cfg: "disk busy ''config.json'' = Some [123, 125]"
    and img: "rendering all_fine = png"
    by (simp_all add: sample_defs)
  from ok old cfg img screenshot_is_the_only_write [OF ok] show ?thesis by simp
qed

text \<open>
  C7. In every run that reaches the screenshot call, what happens after the wheel call
  and before the screenshot call is one thing only:
  \<^verbatim>\<open>asyncio.sleep(1)\<close>, a suspension of one second, which returned.
\<close>

theorem one_second_settle:
  assumes "called (Screenshot ''verification/scroll-sync.png'') (run_trace E I)"
  shows "between (MouseWheel 0 500) (Screenshot ''verification/scroll-sync.png'') (run_trace E I)
           = [(AsyncioSleep 1, None)]"
  by (simp add: between_def before_screenshot [OF assms])

theorem one_second_settle_witness:
  "called (Screenshot ''verification/scroll-sync.png'') (run_trace all_fine busy)
   \<and> between (MouseWheel 0 500) (Screenshot ''verification/scroll-sync.png'')
        (run_trace all_fine busy) = [(AsyncioSleep 1, None)]"
proof -
  have reached: "called (Screenshot ''verification/scroll-sync.png'') (run_trace all_fine busy)"
    by (simp add: run_simps sample_defs)
  from reached one_second_settle [OF reached] show ?thesis by simp
qed

subsection \<open>The browser and the driver\<close>

text \<open>
  C8. Every run starts by acquiring the browser: its first call enters the context
  manager of the automation library, and as soon as that has returned the next call is
  \<^verbatim>\<open>p.chromium.launch()\<close>. Every launch call a run makes is without the
  \<^verbatim>\<open>headless\<close> keyword, and so a headless one.
\<close>

theorem headless_launch_first:
  "take 2 (run_calls E I)
     = AsyncPlaywrightEnter #
         (if returned AsyncPlaywrightEnter (run_trace E I) then [ChromiumLaunch None] else [])
   \<and> (\<forall>h. called (ChromiumLaunch h) (run_trace E I) \<longrightarrow> h = None \<and> launch_headless h)"
  by (auto simp add: run_simps launch_headless_def split: option.splits)

theorem headless_launch_first_witness:
  "returned AsyncPlaywrightEnter (run_trace server_down plain)
   \<and> called (ChromiumLaunch None) (run_trace server_down plain)
   \<and> take 2 (run_calls server_down plain) = [AsyncPlaywrightEnter, ChromiumLaunch None]
   \<and> launch_headless None"
proof -
  have entered: "returned AsyncPlaywrightEnter (run_trace server_down plain)"
    by (simp add: run_simps sample_defs)
  have launch: "called (ChromiumLaunch None) (run_trace server_down plain)"
    by (simp add: run_simps sample_defs)
  from entered launch headless_launch_first [of server_down plain]
  show ?thesis by simp
qed

text \<open>
  C9. A run does not depend on how the script was invoked. Two runs in which the
  library answers alike make the same calls with the same arguments and outcomes and
  end with the same exit status and error, whatever the command lines, the process
  environments and the files on disk of the two. The calls of any run are an initial
  part of one fixed sequence (followed by the exit handler once the context manager
  was entered), and when nothing raises they are that sequence in full, every argument
  a literal of the script.
\<close>

theorem fixed_literals_only:
  assumes "raises E = raises E'"
  shows "run_trace E I = run_trace E' I'
         \<and> exit_status (run_script E I) = exit_status (run_script E' I')
         \<and> uncaught (run_script E I) = uncaught (run_script E' I')
         \<and> (\<exists>k. run_calls E I
                  = take k (AsyncPlaywrightEnter # main_body)
                    @ (if returned AsyncPlaywrightEnter (run_trace E I)
                       then [AsyncPlaywrightExit] else []))
         \<and> (raised (run_trace E I) = [] \<longrightarrow>
               run_calls E I
                 = [AsyncPlaywrightEnter, ChromiumLaunch None, NewPage,
                    Goto ''http://localhost:5173'', MouseMove 300 300, MouseWheel 0 500,
                    AsyncioSleep 1, Screenshot ''verification/scroll-sync.png'', BrowserClose,
                    AsyncPlaywrightExit])"
proof -
  have same: "attempt E main_body = attempt E' main_body"
    using assms by (rule attempt_cong)
  have tr: "run_trace E I = run_trace E' I'"
    by (simp add: run_trace_eq same assms split: option.splits)
  have un: "uncaught (run_script E I) = uncaught (run_script E' I')"
    by (simp add: run_uncaught_eq tr)
  have st: "exit_status (run_script E I) = exit_status (run_script E' I')"
    by (simp add: run_status_eq un)
  have shape: "\<exists>k. run_calls E I
                  = take k (AsyncPlaywrightEnter # main_body)
                    @ (if returned AsyncPlaywrightEnter (run_trace E I)
                       then [AsyncPlaywrightExit] else [])"
  proof (cases "raises E AsyncPlaywrightEnter")
    case None
    then have "run_calls E I
                 = take (Suc (length (attempt E main_body))) (AsyncPlaywrightEnter # main_body)
                   @ (if returned AsyncPlaywrightEnter (run_trace E I)
                      then [AsyncPlaywrightExit] else [])"
      by (simp add: run_calls_def run_trace_eq attempt_calls returned_def)
    then show ?thesis by (rule exI)
  next
    case (Some e)
    then have "run_calls E I
                 = take 1 (AsyncPlaywrightEnter # main_body)
                   @ (if returned AsyncPlaywrightEnter (run_trace E I)
                      then [AsyncPlaywrightExit] else [])"
      by (simp add: run_calls_def run_trace_eq returned_def)
    then show ?thesis by (rule exI)
  qed
  have full: "raised (run_trace E I) = [] \<longrightarrow>
               run_calls E I
                 = [AsyncPlaywrightEnter, ChromiumLaunch None, NewPage,
                    Goto ''http://localhost:5173'', MouseMove 300 300, MouseWheel 0 500,
                    AsyncioSleep 1, Screenshot ''verification/scroll-sync.png'', BrowserClose,
                    AsyncPlaywrightExit]"
    by (simp add: run_simps split: option.splits)
  from tr st un shape full show ?thesis by blast
qed

theorem fixed_literals_only_witness:
  "raises all_fine = raises all_fine_other_image
   \<and> argv plain \<noteq> argv busy \<and> environ plain \<noteq> environ busy \<and> disk plain \<noteq> disk busy
   \<and> raised (run_trace all_fine plain) = []
   \<and> run_trace all_fine plain = run_trace all_fine_other_image busy
   \<and> exit_status (run_script all_fine plain) = exit_status (run_script all_fine_other_image busy)
   \<and> run_calls all_fine plain
       = [AsyncPlaywrightEnter, ChromiumLaunch None, NewPage,
          Goto ''http://localhost:5173'', MouseMove 300 300, MouseWheel 0 500,
          AsyncioSleep 1, Screenshot ''verification/scroll-sync.png'', BrowserClose,
          AsyncPlaywrightExit]"
proof -
  have alike: "raises all_fine = raises all_fine_other_image"
    by (simp add: sample_defs)
  have differ: "argv plain \<noteq> argv busy" "environ plain \<noteq> environ busy"
    by (simp_all add: sample_defs)
  have "disk plain ''config.json'' \<noteq> disk busy ''config.json''"
    by (simp add: sample_defs)
  then have disks: "disk plain \<noteq> disk busy"
    by metis
  have quiet: "raised (run_trace all_fine plain) = []"
    by (simp add: run_simps sample_defs)
  from alike differ disks quiet fixed_literals_only [OF alike, of plain busy]
  show ?thesis by simp
qed

text \<open>
  C10. Once the context manager of the automation library has been entered, its exit
  handler runs on every path out of the block, also when a step raised and the close
  call of the script was skipped: it is called exactly once, as the last call of the
  run. When it is called the driver is up, whatever it was before the run, and when it
  returns the driver is down, whatever it was before the run: the handler is what
  stops it.
\<close>

theorem driver_exit_handler_always_runs:
  assumes "returned AsyncPlaywrightEnter (run_trace E I)"
  shows "last (run_trace E I) = (AsyncPlaywrightExit, raises E AsyncPlaywrightExit)
         \<and> count_list (run_calls E I) AsyncPlaywrightExit = 1
         \<and> (\<forall>b. driver_running b (butlast (run_trace E I)))
         \<and> (raises E AsyncPlaywrightExit = None
              \<longrightarrow> (\<forall>b. \<not> driver_running b (run_trace E I)))"
proof -
  note tr = entered_trace [OF assms]
  have handler: "last (run_trace E I) = (AsyncPlaywrightExit, raises E AsyncPlaywrightExit)"
    by (simp add: tr)
  have "AsyncPlaywrightExit \<notin> set (take (length (attempt E main_body)) main_body)"
    by (auto simp add: main_body_def dest: in_set_takeD)
  then have "count_list (map fst (attempt E main_body)) AsyncPlaywrightExit = 0"
    by (simp add: attempt_calls count_list_0_iff)
  then have once: "count_list (run_calls E I) AsyncPlaywrightExit = 1"
    by (simp add: run_calls_def tr)
  have up: "driver_running b (butlast (run_trace E I))" for b
    by (simp add: tr butlast_append driver_running_body)
  have down: "\<not> driver_running b (run_trace E I)" if "raises E AsyncPlaywrightExit = None" for b
    using that driver_running_exit_last [of True "attempt E main_body"]
    by (simp add: tr)
  from handler once up down show ?thesis by blast
qed

theorem driver_exit_handler_always_runs_witness:
  "returned AsyncPlaywrightEnter (run_trace wheel_fails busy)
   \<and> raises wheel_fails AsyncPlaywrightExit = None
   \<and> \<not> called BrowserClose (run_trace wheel_fails busy)
   \<and> last (run_trace wheel_fails busy) = (AsyncPlaywrightExit, None)
   \<and> count_list (run_calls wheel_fails busy) AsyncPlaywrightExit = 1
   \<and> driver_running False (butlast (run_trace wheel_fails busy))
   \<and> \<not> driver_running True (run_trace wheel_fails busy)
   \<and> \<not> driver_running False (run_trace wheel_fails busy)"
proof -
  have entered: "returned AsyncPlaywrightEnter (run_trace wheel_fails busy)"
    by (simp add: run_simps sample_defs)
  have quiet: "raises wheel_fails AsyncPlaywrightExit = None"
    by (simp add: sample_defs)
  have skipped: "\<not> called BrowserClose (run_trace wheel_fails busy)"
    by (simp add: run_simps sample_defs)
  from entered quiet skipped driver_exit_handler_always_runs [OF entered]
  show ?thesis by simp
qed

end
